theory Spec2Isabelle
  imports Complex_Main
begin

section \<open>Python text primitives used by the exporter\<close>

text \<open>
  A Python \<open>str\<close> is modelled as a \<open>string\<close>: one \<open>char\<close> per code point, for text
  whose code points are below 256 (the trace lines and sysfs attributes of the kernel are
  ASCII). The character classes below are those of CPython on that range.
\<close>

text \<open>\<open>str.isspace\<close> on one character: the separators of \<open>str.split()\<close> and
  \<open>str.strip()\<close>.\<close>

definition whitespace_chars :: "char list" where
  "whitespace_chars =
     [CHR 0x09, CHR 0x0A, CHR 0x0B, CHR 0x0C, CHR 0x0D, CHR 0x1C, CHR 0x1D, CHR 0x1E,
      CHR 0x1F, CHR 0x20, CHR 0x85, CHR 0xA0]"

definition isspace :: "char \<Rightarrow> bool" where
  "isspace c = (c \<in> set whitespace_chars)"

text \<open>The decimal digits (\<open>\d\<close> of \<open>re\<close>, and what \<open>int()\<close> reads), and the characters
  for which \<open>str.isdigit\<close> holds: the decimal digits and the superscripts
  \<open>U+00B2\<close>, \<open>U+00B3\<close>, \<open>U+00B9\<close>, which \<open>int()\<close> rejects.\<close>

definition is_decimal :: "char \<Rightarrow> bool" where
  "is_decimal c = (c \<in> set ''0123456789'')"

definition isdigit_char :: "char \<Rightarrow> bool" where
  "isdigit_char c = (is_decimal c \<or> c \<in> set [CHR 0xB2, CHR 0xB3, CHR 0xB9])"

text \<open>\<open>s.isdigit()\<close>: every character is a digit and there is at least one.\<close>

definition isdigit :: "string \<Rightarrow> bool" where
  "isdigit s = (s \<noteq> [] \<and> list_all isdigit_char s)"

text \<open>\<open>s.strip()\<close> and \<open>s.lstrip('-')\<close>.\<close>

definition strip :: "string \<Rightarrow> string" where
  "strip s = rev (dropWhile isspace (rev (dropWhile isspace s)))"

definition lstrip_minus :: "string \<Rightarrow> string" where
  "lstrip_minus s = dropWhile (\<lambda>c. c = CHR ''-'') s"

text \<open>\<open>s.split()\<close>: the maximal runs of non-whitespace characters, in order. The first
  argument is the token being read.\<close>

fun split_scan :: "string \<Rightarrow> string \<Rightarrow> string list" where
  "split_scan cur [] = (if cur = [] then [] else [cur])"
| "split_scan cur (c # cs) =
     (if isspace c then (if cur = [] then split_scan [] cs else cur # split_scan [] cs)
      else split_scan (cur @ [c]) cs)"

definition split :: "string \<Rightarrow> string list" where
  "split s = split_scan [] s"

text \<open>\<open>s.split(sep)\<close> for a one-character separator: every occurrence separates, so the
  result has one more field than \<open>s\<close> has separators (empty fields included).\<close>

fun split_sep_scan :: "char \<Rightarrow> string \<Rightarrow> string \<Rightarrow> string list" where
  "split_sep_scan sep cur [] = [cur]"
| "split_sep_scan sep cur (c # cs) =
     (if c = sep then cur # split_sep_scan sep [] cs else split_sep_scan sep (cur @ [c]) cs)"

definition split_sep :: "char \<Rightarrow> string \<Rightarrow> string list" where
  "split_sep sep s = split_sep_scan sep [] s"

subsection \<open>\<open>int()\<close> and \<open>str()\<close>\<close>

definition digit_value :: "char \<Rightarrow> nat" where
  "digit_value c = of_char c - 48"

definition nat_of_digits :: "string \<Rightarrow> nat" where
  "nat_of_digits ds = foldl (\<lambda>a c. 10 * a + digit_value c) 0 ds"

text \<open>A literal's digits: between two digits one underscore may stand, so every group
  between underscores is a non-empty run of decimal digits.\<close>

definition digit_groups_ok :: "string \<Rightarrow> bool" where
  "digit_groups_ok body =
     list_all (\<lambda>g. g \<noteq> [] \<and> list_all is_decimal g) (split_sep (CHR ''_'') body)"

text \<open>
  \<open>int(s)\<close> in base 10, for \<open>s\<close> without leading or trailing whitespace (every call of the
  exporter passes a token of \<open>split()\<close>, a field of one, a \<open>strip()\<close>ped file content or a
  match of \<open>\d+\<close>): an optional sign, then the digits. \<open>None\<close> is \<open>ValueError\<close>.
  \<open>max_str_digits\<close> is the interpreter's \<open>sys.get_int_max_str_digits()\<close>: when it is not 0
  (its default is 4300; older interpreters have no limit, which is 0 here), a literal of
  more digits raises \<open>ValueError\<close> too.
\<close>

definition py_int :: "nat \<Rightarrow> string \<Rightarrow> int option" where
  "py_int max_str_digits s =
     (let neg = (s \<noteq> [] \<and> hd s = CHR ''-'');
          body = (if s \<noteq> [] \<and> (hd s = CHR ''-'' \<or> hd s = CHR ''+'') then tl s else s);
          ds = filter (\<lambda>c. c \<noteq> CHR ''_'') body
      in if \<not> digit_groups_ok body then None
         else if 0 < max_str_digits \<and> max_str_digits < length ds then None
         else Some (if neg then - int (nat_of_digits ds) else int (nat_of_digits ds)))"

text \<open>\<open>str(n)\<close> of an integer: the decimal digits, after a \<open>-\<close> when negative. (The
  digit limit never applies to the \<open>str(int(s))\<close> of the exporter: the value has no more
  digits than the literal \<open>int()\<close> accepted.)\<close>

definition digit_char :: "nat \<Rightarrow> char" where
  "digit_char d = ''0123456789'' ! d"

fun digits_of_nat :: "nat \<Rightarrow> string" where
  "digits_of_nat n =
     (if n < 10 then [digit_char n] else digits_of_nat (n div 10) @ [digit_char (n mod 10)])"

declare digits_of_nat.simps [simp del]

definition py_str :: "int \<Rightarrow> string" where
  "py_str n = (if n < 0 then CHR ''-'' # digits_of_nat (nat (- n)) else digits_of_nat (nat n))"

section \<open>The line parser\<close>

text \<open>The dictionary \<open>result\<close> that \<open>parse_usbmon_line\<close> returns.\<close>

record event =
  event_type :: string
  bus :: string
  device :: string
  endpoint :: string
  direction :: string
  transfer_type :: string
  status :: string
  data_length :: int

text \<open>\<open>get_transfer_type\<close>: \<open>types.get(type_char, 'unknown')\<close>.\<close>

definition get_transfer_type :: "char \<Rightarrow> string" where
  "get_transfer_type type_char =
     (case map_of [(CHR ''C'', ''control''), (CHR ''Z'', ''isochronous''),
                   (CHR ''I'', ''interrupt''), (CHR ''B'', ''bulk'')] type_char of
        Some t \<Rightarrow> t
      | None \<Rightarrow> ''unknown'')"

text \<open>\<open>ValueError\<close>: what \<open>int()\<close> raises on a string that is no literal, and the
  metrics client on a negative increment. \<open>OverflowError\<close>: what adding an integer to a
  float raises when the integer is too large for a double.\<close>

datatype exn = ValueError | OverflowError

text \<open>\<open>parts.index('=')\<close>: the first position of the token, and \<open>None\<close> when
  \<open>'=' in parts\<close> is false.\<close>

fun index_of :: "'a \<Rightarrow> 'a list \<Rightarrow> nat option" where
  "index_of x [] = None"
| "index_of x (y # ys) = (if y = x then Some 0 else map_option Suc (index_of x ys))"

text \<open>The \<open>for i in range(5, len(parts))\<close> loop over the payload tokens. \<open>Inr None\<close>: the
  loop ended without assigning; \<open>Inr (Some val)\<close>: it assigned \<open>val\<close> and broke;
  \<open>Inl ValueError\<close>: \<open>int(p)\<close> raised, which leaves the loop.\<close>

fun scan_payload :: "nat \<Rightarrow> string list \<Rightarrow> exn + int option" where
  "scan_payload maxd [] = Inr None"
| "scan_payload maxd (p # ps) =
     (if isdigit (lstrip_minus p) then
        (case py_int maxd p of
           None \<Rightarrow> Inl ValueError
         | Some val \<Rightarrow>
             if val \<ge> 0 \<and> val < 100000000 then Inr (Some val) else scan_payload maxd ps)
      else scan_payload maxd ps)"

text \<open>The inner \<open>try\<close> block: what it assigns to \<open>result['data_length']\<close>, if anything.\<close>

definition length_assignment :: "nat \<Rightarrow> string list \<Rightarrow> exn + int option" where
  "length_assignment maxd parts =
     (case index_of ''='' parts of
        Some idx \<Rightarrow>
          if idx > 0 \<and> isdigit (lstrip_minus (parts ! (idx - 1))) then
            (case py_int maxd (parts ! (idx - 1)) of
               None \<Rightarrow> Inl ValueError
             | Some v \<Rightarrow> Inr (Some v))
          else Inr None
      | None \<Rightarrow> scan_payload maxd (drop 5 parts))"

text \<open>\<open>result['data_length']\<close> after the inner \<open>try ... except ValueError: pass\<close>: the
  initial 0 unless an assignment happened.\<close>

definition extract_data_length :: "nat \<Rightarrow> string list \<Rightarrow> int" where
  "extract_data_length maxd parts =
     (case length_assignment maxd parts of
        Inl e \<Rightarrow> 0
      | Inr None \<Rightarrow> 0
      | Inr (Some v) \<Rightarrow> v)"

text \<open>\<open>parse_usbmon_line\<close>. \<open>None\<close> is the Python \<open>None\<close>, returned by the two length
  checks and by \<open>except Exception\<close>, which catches the \<open>ValueError\<close> of
  \<open>int(address_parts[2])\<close> and the \<open>IndexError\<close> of \<open>direction_type[0]\<close>.\<close>

definition parse_usbmon_line :: "nat \<Rightarrow> string \<Rightarrow> event option" where
  "parse_usbmon_line maxd line =
     (let parts = split (strip line) in
      if length parts < 6 then None
      else
        let address_parts = split_sep (CHR '':'') (parts ! 3) in
        if length address_parts < 4 then None
        else
          let direction_type = address_parts ! 0 in
          (case py_int maxd (address_parts ! 2) of
             None \<Rightarrow> None
           | Some d \<Rightarrow>
               (case direction_type of
                  [] \<Rightarrow> None
                | type_char # rest \<Rightarrow>
                    Some \<lparr> event_type = parts ! 2,
                           bus = address_parts ! 1,
                           device = py_str d,
                           endpoint = address_parts ! 3,
                           direction =
                             (if length direction_type > 1 \<and> direction_type ! 1 = CHR ''i''
                              then ''in'' else ''out''),
                           transfer_type = get_transfer_type type_char,
                           status = parts ! 4,
                           data_length = extract_data_length maxd parts \<rparr>)))"

section \<open>Metrics and the aggregator\<close>

text \<open>
  The value of a counter's child is a Python float, a double: it starts at \<open>0.0\<close> and
  \<open>inc(amount)\<close> does \<open>self._value += amount\<close>. The exporter passes only integers, so
  the value is always a non-negative integer that a double represents, or infinity.
\<close>

datatype pyfloat = Finite nat | Infinity

text \<open>The number of binary digits of \<open>n\<close>.\<close>

fun bit_length :: "nat \<Rightarrow> nat" where
  "bit_length n = (if n = 0 then 0 else Suc (bit_length (n div 2)))"

declare bit_length.simps [simp del]

text \<open>
  The double nearest to the integer \<open>n\<close>, ties to the even significand, as an integer:
  every integer up to \<open>2^53\<close> is a double; a longer one keeps its 53 leading binary digits
  \<open>q\<close>, rounded by the remainder \<open>r\<close> of the \<open>e\<close> digits dropped.
\<close>

definition round_to_double :: "nat \<Rightarrow> nat" where
  "round_to_double n =
     (if n \<le> 2 ^ 53 then n
      else
        (let e = bit_length n - 53; q = n div 2 ^ e; r = n mod 2 ^ e in
         if 2 ^ e < 2 * r \<or> (2 * r = 2 ^ e \<and> odd q) then (q + 1) * 2 ^ e else q * 2 ^ e))"

text \<open>The conversion of a non-negative integer to a float; \<open>None\<close> is \<open>OverflowError\<close>,
  raised when the rounded value is no finite double (it reaches \<open>2^1024\<close>).\<close>

definition int_to_float :: "nat \<Rightarrow> nat option" where
  "int_to_float n = (if round_to_double n < 2 ^ 1024 then Some (round_to_double n) else None)"

text \<open>The sum of a child's value and a non-negative integer-valued double: the exact sum
  rounded to a double, and infinity when that is no finite double.\<close>

fun float_add :: "pyfloat \<Rightarrow> nat \<Rightarrow> pyfloat" where
  "float_add Infinity a = Infinity"
| "float_add (Finite v) a =
     (if round_to_double (v + a) < 2 ^ 1024 then Finite (round_to_double (v + a)) else Infinity)"

text \<open>
  A labelled counter of the metrics client: one child per tuple of label values (in the
  order the metric declares its label names). \<open>labels(...)\<close> creates the child at \<open>0.0\<close>
  when there is none; \<open>inc(amount)\<close> refuses a negative amount with \<open>ValueError\<close> and else
  adds the amount to the child's float, which raises \<open>OverflowError\<close> when the amount
  is too large for a double. \<open>Inl\<close> is the exception with the counter as the call leaves
  it, \<open>Inr\<close> the counter after a call that returns.
\<close>

type_synonym counter = "string list \<rightharpoonup> pyfloat"

definition counter_value :: "counter \<Rightarrow> string list \<Rightarrow> pyfloat" where
  "counter_value c labels = (case c labels of Some v \<Rightarrow> v | None \<Rightarrow> Finite 0)"

definition labels_inc :: "counter \<Rightarrow> string list \<Rightarrow> int \<Rightarrow> (exn \<times> counter) + counter" where
  "labels_inc c labels amount =
     (let child = c(labels \<mapsto> counter_value c labels) in
      if amount < 0 then Inl (ValueError, child)
      else
        (case int_to_float (nat amount) of
           None \<Rightarrow> Inl (OverflowError, child)
         | Some a \<Rightarrow> Inr (child(labels \<mapsto> float_add (counter_value c labels) a))))"

text \<open>The four counters of \<open>setup_metrics\<close> that \<open>process_usbmon_data\<close> touches.\<close>

record metrics =
  usb_data_sent_bytes :: counter
  usb_data_received_bytes :: counter
  usb_transfer_errors_sent :: counter
  usb_transfer_errors_received :: counter

text \<open>
  A record of the device cache \<open>usb_devices\<close>. The placeholder of \<open>get_device_info\<close> is a
  dictionary without the keys \<open>version\<close>, \<open>class_id\<close>, \<open>driver\<close>, \<open>bus\<close> and \<open>device\<close>
  (\<open>None\<close> here), and its \<open>speed\<close> is the integer 0 where a cached record has a float.
  Floats are a type parameter \<open>'f\<close>.
\<close>

datatype 'f number = IntVal int | FloatVal 'f

record 'f device_info =
  vendor_id :: string
  product_id :: string
  vendor_name :: string
  product_name :: string
  serial :: string
  version :: "string option"
  class_id :: "string option"
  driver :: "string option"
  speed :: "'f number"
  max_power :: int
  info_bus :: "string option"
  info_device :: "string option"

type_synonym 'f device_cache = "string \<rightharpoonup> 'f device_info"

definition unknown_device :: "'f device_info" where
  "unknown_device =
     \<lparr> vendor_id = ''unknown'', product_id = ''unknown'',
       vendor_name = ''unknown'', product_name = ''unknown'',
       serial = ''unknown'', version = None, class_id = None, driver = None,
       speed = IntVal 0, max_power = 0, info_bus = None, info_device = None \<rparr>"

text \<open>\<open>f"{bus}:{device}"\<close>, the key of the cache.\<close>

definition device_key :: "string \<Rightarrow> string \<Rightarrow> string" where
  "device_key b d = b @ '':'' @ d"

text \<open>\<open>get_device_info\<close>: \<open>self.usb_devices.get(key, {...})\<close>.\<close>

definition get_device_info :: "'f device_cache \<Rightarrow> string \<Rightarrow> string \<Rightarrow> 'f device_info" where
  "get_device_info usb_devices b d =
     (case usb_devices (device_key b d) of
        Some info \<Rightarrow> info
      | None \<Rightarrow> unknown_device)"

text \<open>\<open>process_usbmon_data\<close>, on the metrics it mutates. \<open>Inl\<close> is an exception that
  leaves the method, with the metrics as it leaves them.\<close>

definition process_usbmon_data ::
  "nat \<Rightarrow> 'f device_cache \<Rightarrow> metrics \<Rightarrow> string \<Rightarrow> (exn \<times> metrics) + metrics" where
  "process_usbmon_data maxd usb_devices m line =
     (case parse_usbmon_line maxd line of
        None \<Rightarrow> Inr m
      | Some parsed \<Rightarrow>
          if event_type parsed \<noteq> ''C'' then Inr m
          else if status parsed \<noteq> ''0'' then
            (if direction parsed = ''out'' then
               map_sum (\<lambda>(e, c). (e, m\<lparr>usb_transfer_errors_sent := c\<rparr>))
                 (\<lambda>c. m\<lparr>usb_transfer_errors_sent := c\<rparr>)
                 (labels_inc (usb_transfer_errors_sent m)
                    [bus parsed, device parsed, endpoint parsed,
                     transfer_type parsed, status parsed] 1)
             else
               map_sum (\<lambda>(e, c). (e, m\<lparr>usb_transfer_errors_received := c\<rparr>))
                 (\<lambda>c. m\<lparr>usb_transfer_errors_received := c\<rparr>)
                 (labels_inc (usb_transfer_errors_received m)
                    [bus parsed, device parsed, endpoint parsed,
                     transfer_type parsed, status parsed] 1))
          else if data_length parsed > 0 then
            (let dev = get_device_info usb_devices (bus parsed) (device parsed) in
             if direction parsed = ''out'' then
               map_sum (\<lambda>(e, c). (e, m\<lparr>usb_data_sent_bytes := c\<rparr>))
                 (\<lambda>c. m\<lparr>usb_data_sent_bytes := c\<rparr>)
                 (labels_inc (usb_data_sent_bytes m)
                    [bus parsed, device parsed, endpoint parsed, transfer_type parsed,
                     vendor_name dev, product_name dev, serial dev]
                    (data_length parsed))
             else
               map_sum (\<lambda>(e, c). (e, m\<lparr>usb_data_received_bytes := c\<rparr>))
                 (\<lambda>c. m\<lparr>usb_data_received_bytes := c\<rparr>)
                 (labels_inc (usb_data_received_bytes m)
                    [bus parsed, device parsed, endpoint parsed, transfer_type parsed,
                     vendor_name dev, product_name dev, serial dev]
                    (data_length parsed)))
          else Inr m)"

section \<open>The device registry and the refresh of the cache\<close>

subsection \<open>Regular expressions\<close>

text \<open>The three patterns of the exporter use digits (\<open>\d\<close>), any character but a newline
  (\<open>.\<close>), literal characters, sequence and iteration. They are matched by derivatives.\<close>

datatype char_class = Digit | NotNewline | Lit char

fun in_class :: "char_class \<Rightarrow> char \<Rightarrow> bool" where
  "in_class Digit c = is_decimal c"
| "in_class NotNewline c = (c \<noteq> CHR 0x0A)"
| "in_class (Lit l) c = (c = l)"

datatype regex = Zero | Epsilon | Atom char_class | Seq regex regex | Alt regex regex | Star regex

fun nullable :: "regex \<Rightarrow> bool" where
  "nullable Zero = False"
| "nullable Epsilon = True"
| "nullable (Atom a) = False"
| "nullable (Seq r s) = (nullable r \<and> nullable s)"
| "nullable (Alt r s) = (nullable r \<or> nullable s)"
| "nullable (Star r) = True"

fun deriv :: "char \<Rightarrow> regex \<Rightarrow> regex" where
  "deriv c Zero = Zero"
| "deriv c Epsilon = Zero"
| "deriv c (Atom a) = (if in_class a c then Epsilon else Zero)"
| "deriv c (Seq r s) =
     (if nullable r then Alt (Seq (deriv c r) s) (deriv c s) else Seq (deriv c r) s)"
| "deriv c (Alt r s) = Alt (deriv c r) (deriv c s)"
| "deriv c (Star r) = Seq (deriv c r) (Star r)"

definition matches :: "regex \<Rightarrow> string \<Rightarrow> bool" where
  "matches r s = nullable (foldl (\<lambda>r c. deriv c r) r s)"

text \<open>\<open>re.match(p + '$', s)\<close> for a pattern \<open>p\<close>: \<open>$\<close> stands at the end of \<open>s\<close> or before
  a newline that ends \<open>s\<close>.\<close>

definition re_match_end :: "regex \<Rightarrow> string \<Rightarrow> bool" where
  "re_match_end r s =
     (matches r s \<or> (s \<noteq> [] \<and> last s = CHR 0x0A \<and> matches r (butlast s)))"

definition one_or_more :: "regex \<Rightarrow> regex" where
  "one_or_more r = Seq r (Star r)"

fun literal :: "string \<Rightarrow> regex" where
  "literal [] = Epsilon"
| "literal (c # cs) = Seq (Atom (Lit c)) (literal cs)"

text \<open>\<open>^\d+-\d+(\.\d+)*$\<close>, \<open>^usb\d+$\<close> and \<open>.*:\d+\.\d+$\<close>.\<close>

definition device_pattern :: regex where
  "device_pattern =
     Seq (one_or_more (Atom Digit))
       (Seq (Atom (Lit (CHR ''-'')))
          (Seq (one_or_more (Atom Digit)) (Star (Seq (Atom (Lit (CHR ''.''))) (one_or_more (Atom Digit))))))"

definition root_hub_pattern :: regex where
  "root_hub_pattern = Seq (literal ''usb'') (one_or_more (Atom Digit))"

definition interface_pattern :: regex where
  "interface_pattern =
     Seq (Star (Atom NotNewline))
       (Seq (Atom (Lit (CHR '':'')))
          (Seq (one_or_more (Atom Digit)) (Seq (Atom (Lit (CHR ''.''))) (one_or_more (Atom Digit)))))"

subsection \<open>The file system the refresh reads\<close>

text \<open>
  What the calls of \<open>os\<close> and \<open>open\<close> answer during one refresh: \<open>os.path.exists\<close>,
  \<open>os.listdir\<close>, the text \<open>f.read()\<close> gives for a path, and \<open>os.readlink\<close>. \<open>Inl\<close> is the
  exception the call raises.
\<close>

datatype os_error = OSError

record sysfs =
  path_exists :: "string \<Rightarrow> bool"
  listdir :: "string \<Rightarrow> os_error + string list"
  read_text :: "string \<Rightarrow> os_error + string"
  readlink :: "string \<Rightarrow> os_error + string"

definition devices_path :: string where
  "devices_path = ''/sys/bus/usb/devices/''"

text \<open>\<open>os.path.join(a, b)\<close> and \<open>os.path.basename(p)\<close> of \<open>posixpath\<close>.\<close>

definition path_join :: "string \<Rightarrow> string \<Rightarrow> string" where
  "path_join a b =
     (if b \<noteq> [] \<and> hd b = CHR ''/'' then b
      else if a = [] \<or> last a = CHR ''/'' then a @ b
      else a @ ''/'' @ b)"

definition basename :: "string \<Rightarrow> string" where
  "basename p = last (split_sep (CHR ''/'') p)"

text \<open>\<open>read_sysfs_file(filepath, default)\<close>; the default is \<open>None\<close> or a string.\<close>

definition read_sysfs_file :: "sysfs \<Rightarrow> string \<Rightarrow> string option \<Rightarrow> string option" where
  "read_sysfs_file fs filepath dflt =
     (if \<not> path_exists fs filepath then dflt
      else
        (case read_text fs filepath of
           Inl e \<Rightarrow> dflt
         | Inr text \<Rightarrow> (let content = strip text in if content \<noteq> [] then Some content else dflt)))"

text \<open>A call with a string default returns a string.\<close>

definition read_sysfs_str :: "sysfs \<Rightarrow> string \<Rightarrow> string \<Rightarrow> string" where
  "read_sysfs_str fs filepath dflt =
     (case read_sysfs_file fs filepath (Some dflt) of Some content \<Rightarrow> content | None \<Rightarrow> dflt)"

text \<open>\<open>str.lower()\<close>: the capital letters of ASCII and of Latin-1.\<close>

definition lower_char :: "char \<Rightarrow> char" where
  "lower_char c =
     (let n = (of_char c :: nat) in
      if (65 \<le> n \<and> n \<le> 90) \<or> (192 \<le> n \<and> n \<le> 222 \<and> n \<noteq> 215) then char_of (n + 32) else c)"

definition lower :: "string \<Rightarrow> string" where
  "lower s = map lower_char s"

text \<open>\<open>clean_string\<close>: \<open>re.sub(r'[^\x20-\x7E]', '', text).strip()\<close>.\<close>

definition printable :: "char \<Rightarrow> bool" where
  "printable c = (32 \<le> (of_char c :: nat) \<and> (of_char c :: nat) \<le> 126)"

definition clean_string :: "string \<Rightarrow> string" where
  "clean_string text =
     (if text = ''unknown'' \<or> text = [] then ''unknown''
      else (let cleaned = strip (filter printable text) in
            if cleaned \<noteq> [] then cleaned else ''unknown''))"

text \<open>\<open>parse_speed\<close>: \<open>float(speed_str)\<close>, or \<open>0.0\<close> on \<open>ValueError\<close>. The interpreter's
  \<open>float()\<close> on strings is the parameter \<open>to_float\<close> (\<open>None\<close>: it raises \<open>ValueError\<close>).\<close>

definition parse_speed :: "(string \<Rightarrow> 'f option) \<Rightarrow> string \<Rightarrow> 'f::zero" where
  "parse_speed to_float speed_str =
     (case to_float speed_str of Some v \<Rightarrow> v | None \<Rightarrow> 0)"

text \<open>\<open>'mA' in power_str\<close>, and the first match of \<open>(\d+)\<close> that \<open>re.search\<close> finds.\<close>

fun contains :: "string \<Rightarrow> string \<Rightarrow> bool" where
  "contains sub [] = (sub = [])"
| "contains sub (c # cs) = (take (length sub) (c # cs) = sub \<or> contains sub cs)"

definition search_digits :: "string \<Rightarrow> string option" where
  "search_digits s =
     (let rest = dropWhile (\<lambda>c. \<not> is_decimal c) s in
      if rest = [] then None else Some (takeWhile is_decimal rest))"

text \<open>\<open>parse_power\<close>; the bare \<open>except\<close> turns every failure (no digits to \<open>group\<close>, a
  \<open>ValueError\<close> of \<open>int\<close>) into 0.\<close>

definition parse_power :: "nat \<Rightarrow> string \<Rightarrow> int" where
  "parse_power maxd power_str =
     (if contains ''mA'' power_str then
        (case search_digits power_str of
           None \<Rightarrow> 0
         | Some ds \<Rightarrow> (case py_int maxd ds of Some n \<Rightarrow> n | None \<Rightarrow> 0))
      else (case py_int maxd power_str of Some n \<Rightarrow> n * 2 | None \<Rightarrow> 0))"

text \<open>\<open>get_driver_name\<close>: the loop over the entries of the device directory, then the
  \<open>try\<close> around it. \<open>Inr None\<close>: the loop ended without returning.\<close>

fun find_driver :: "sysfs \<Rightarrow> string \<Rightarrow> string list \<Rightarrow> os_error + string option" where
  "find_driver fs device_path [] = Inr None"
| "find_driver fs device_path (item # items) =
     (if re_match_end interface_pattern item then
        (let interface_path = path_join device_path item;
             driver_link = path_join interface_path ''driver'' in
         if path_exists fs driver_link then
           (case readlink fs driver_link of
              Inl e \<Rightarrow> Inl e
            | Inr driver_path \<Rightarrow> Inr (Some (basename driver_path)))
         else find_driver fs device_path items)
      else find_driver fs device_path items)"

definition get_driver_name :: "sysfs \<Rightarrow> string \<Rightarrow> string" where
  "get_driver_name fs device_path =
     (case listdir fs device_path of
        Inl e \<Rightarrow> ''none''
      | Inr items \<Rightarrow>
          (case find_driver fs device_path items of
             Inr (Some name) \<Rightarrow> name
           | Inr None \<Rightarrow> ''none''
           | Inl e \<Rightarrow> ''none''))"

subsection \<open>\<open>update_device_info\<close>\<close>

text \<open>
  One iteration of the loop over \<open>os.listdir(devices_path)\<close>: \<open>None\<close> when the name is not
  a device's or a root hub's, when \<open>busnum\<close> or \<open>devnum\<close> is missing or empty
  (\<open>continue\<close>), or when \<open>int()\<close> raises (\<open>except Exception: pass\<close>); else the key and the
  record that the iteration assigns to \<open>self.usb_devices[device_key]\<close>.
\<close>

definition device_entry ::
  "nat \<Rightarrow> (string \<Rightarrow> 'f option) \<Rightarrow> sysfs \<Rightarrow> string \<Rightarrow> (string \<times> 'f::zero device_info) option" where
  "device_entry maxd to_float fs device_dir =
     (if \<not> (re_match_end device_pattern device_dir \<or> re_match_end root_hub_pattern device_dir)
      then None
      else
        let full_path = path_join devices_path device_dir in
        (case (read_sysfs_file fs (full_path @ ''/busnum'') None,
               read_sysfs_file fs (full_path @ ''/devnum'') None) of
           (Some bus_text, Some dev_text) \<Rightarrow>
             if bus_text = [] \<or> dev_text = [] then None
             else
               (case (py_int maxd bus_text, py_int maxd dev_text) of
                  (Some b, Some d) \<Rightarrow>
                    let bus_id = py_str b; dev_id = py_str d in
                    Some (device_key bus_id dev_id,
                      \<lparr> vendor_id = lower (read_sysfs_str fs (full_path @ ''/idVendor'') ''unknown''),
                        product_id = lower (read_sysfs_str fs (full_path @ ''/idProduct'') ''unknown''),
                        vendor_name =
                          clean_string (read_sysfs_str fs (full_path @ ''/manufacturer'') ''unknown''),
                        product_name =
                          clean_string (read_sysfs_str fs (full_path @ ''/product'') ''unknown''),
                        serial = read_sysfs_str fs (full_path @ ''/serial'') ''unknown'',
                        version = Some (read_sysfs_str fs (full_path @ ''/version'') ''unknown''),
                        class_id = Some (read_sysfs_str fs (full_path @ ''/bDeviceClass'') ''00''),
                        driver = Some (get_driver_name fs full_path),
                        speed =
                          FloatVal (parse_speed to_float (read_sysfs_str fs (full_path @ ''/speed'') ''0'')),
                        max_power = parse_power maxd (read_sysfs_str fs (full_path @ ''/bMaxPower'') ''0''),
                        info_bus = Some bus_id,
                        info_device = Some dev_id \<rparr>)
                | _ \<Rightarrow> None)
         | _ \<Rightarrow> None))"

text \<open>The assignment of one iteration, made under \<open>device_lock\<close>.\<close>

definition update_one ::
  "nat \<Rightarrow> (string \<Rightarrow> 'f option) \<Rightarrow> sysfs \<Rightarrow> 'f device_cache \<Rightarrow> string \<Rightarrow> 'f::zero device_cache" where
  "update_one maxd to_float fs usb_devices device_dir =
     (case device_entry maxd to_float fs device_dir of
        None \<Rightarrow> usb_devices
      | Some (key, info) \<Rightarrow> usb_devices(key \<mapsto> info))"

text \<open>\<open>update_device_info\<close>, on the cache it mutates: it returns at once when the
  registry root is missing, and the outer \<open>except\<close> ends it when \<open>os.listdir\<close> raises.\<close>

definition update_device_info ::
  "nat \<Rightarrow> (string \<Rightarrow> 'f option) \<Rightarrow> sysfs \<Rightarrow> 'f device_cache \<Rightarrow> 'f::zero device_cache" where
  "update_device_info maxd to_float fs usb_devices =
     (if \<not> path_exists fs devices_path then usb_devices
      else
        (case listdir fs devices_path of
           Inl e \<Rightarrow> usb_devices
         | Inr dirs \<Rightarrow> foldl (update_one maxd to_float fs) usb_devices dirs))"

text \<open>
  The lock is taken for one assignment at a time, so \<open>get_device_info\<close> on another
  thread can find the cache as it is before the loop, between two iterations or after
  the loop: the caches after the first \<open>n\<close> iterations, for every \<open>n\<close>.
\<close>

definition visible_caches ::
  "nat \<Rightarrow> (string \<Rightarrow> 'f option) \<Rightarrow> sysfs \<Rightarrow> 'f device_cache \<Rightarrow> 'f::zero device_cache list" where
  "visible_caches maxd to_float fs usb_devices =
     (if \<not> path_exists fs devices_path then [usb_devices]
      else
        (case listdir fs devices_path of
           Inl e \<Rightarrow> [usb_devices]
         | Inr dirs \<Rightarrow>
             map (\<lambda>n. foldl (update_one maxd to_float fs) usb_devices (take n dirs))
               [0 ..< Suc (length dirs)]))"

section \<open>The notions the specification uses\<close>

text \<open>The whitespace tokens of a line (\<open>parts\<close>) and the colon-separated fields of its
  fourth token (\<open>address_parts\<close>).\<close>

definition tokens :: "string \<Rightarrow> string list" where
  "tokens line = split (strip line)"

definition address_fields :: "string \<Rightarrow> string list" where
  "address_fields line = split_sep (CHR '':'') (tokens line ! 3)"

text \<open>
  A numeric (integer-valued) token, read in the parser's favour: minus signs and digits
  that \<open>int()\<close> converts, with the value \<open>int()\<close> gives it.
\<close>

definition integer_token :: "nat \<Rightarrow> string \<Rightarrow> int option" where
  "integer_token maxd t = (if isdigit (lstrip_minus t) then py_int maxd t else None)"

definition in_length_range :: "int \<Rightarrow> bool" where
  "in_length_range v = (0 \<le> v \<and> v < 100000000)"

text \<open>
  The length as the specification words it: with a \<open>=\<close> token, the token before it when
  numeric; without one, the first integer-valued payload token (index 5 onward) in the
  range; else 0.
\<close>

definition spec_data_length :: "nat \<Rightarrow> string list \<Rightarrow> int" where
  "spec_data_length maxd parts =
     (case index_of ''='' parts of
        Some idx \<Rightarrow>
          (if idx = 0 then 0
           else (case integer_token maxd (parts ! (idx - 1)) of Some v \<Rightarrow> v | None \<Rightarrow> 0))
      | None \<Rightarrow>
          (case filter in_length_range (List.map_filter (integer_token maxd) (drop 5 parts)) of
             v # vs \<Rightarrow> v
           | [] \<Rightarrow> 0))"

text \<open>
  A payload token that ends the scan: it passes the digit test (\<open>lstrip('-').isdigit()\<close>)
  and \<open>int()\<close> rejects it, as \<open>--5\<close>. The amended wording scans only the payload tokens
  before the first such token.
\<close>

definition stops_scan :: "nat \<Rightarrow> string \<Rightarrow> bool" where
  "stops_scan maxd t = (isdigit (lstrip_minus t) \<and> py_int maxd t = None)"

definition amended_data_length :: "nat \<Rightarrow> string list \<Rightarrow> int" where
  "amended_data_length maxd parts =
     (case index_of ''='' parts of
        Some idx \<Rightarrow>
          (if idx = 0 then 0
           else (case integer_token maxd (parts ! (idx - 1)) of Some v \<Rightarrow> v | None \<Rightarrow> 0))
      | None \<Rightarrow>
          (case filter in_length_range
                  (List.map_filter (integer_token maxd)
                     (takeWhile (\<lambda>t. \<not> stops_scan maxd t) (drop 5 parts))) of
             v # vs \<Rightarrow> v
           | [] \<Rightarrow> 0))"

text \<open>The decimal representation of a non-negative integer, and of an integer.\<close>

definition nonneg_integer_text :: "string \<Rightarrow> bool" where
  "nonneg_integer_text s = (s \<noteq> [] \<and> list_all is_decimal s)"

definition integer_text :: "string \<Rightarrow> bool" where
  "integer_text s =
     (nonneg_integer_text s \<or> (s \<noteq> [] \<and> hd s = CHR ''-'' \<and> nonneg_integer_text (tl s)))"

text \<open>The entries one refresh reads, in the order of the listing: the key and record of
  every iteration that assigns.\<close>

definition entries_read ::
  "nat \<Rightarrow> (string \<Rightarrow> 'f option) \<Rightarrow> sysfs \<Rightarrow> string list \<Rightarrow> (string \<times> 'f::zero device_info) list" where
  "entries_read maxd to_float fs dirs = List.map_filter (device_entry maxd to_float fs) dirs"

text \<open>The label values of a byte counter's child and of an error counter's child, in
  the order \<open>setup_metrics\<close> declares the label names.\<close>

definition byte_labels :: "'f device_cache \<Rightarrow> event \<Rightarrow> string list" where
  "byte_labels usb_devices ev =
     [bus ev, device ev, endpoint ev, transfer_type ev,
      vendor_name (get_device_info usb_devices (bus ev) (device ev)),
      product_name (get_device_info usb_devices (bus ev) (device ev)),
      serial (get_device_info usb_devices (bus ev) (device ev))]"


section \<open>Example data\<close>

text \<open>Metrics without children, as \<open>setup_metrics\<close> leaves them.\<close>

definition no_metrics :: metrics where
  "no_metrics =
     \<lparr> usb_data_sent_bytes = Map.empty, usb_data_received_bytes = Map.empty,
       usb_transfer_errors_sent = Map.empty, usb_transfer_errors_received = Map.empty \<rparr>"

text \<open>
  A registry with one device, \<open>1-1\<close> (bus 1, device 2), and one interface entry that the
  refresh skips. \<open>float()\<close> is given on the two speed strings that occur.
\<close>

definition example_float :: "string \<Rightarrow> real option" where
  "example_float s = (if s = ''12'' then Some 12 else if s = ''0'' then Some 0 else None)"

definition example_files :: "(string \<times> string) list" where
  "example_files =
     [(''/sys/bus/usb/devices/1-1/busnum'', ''1'' @ [CHR 0x0A]),
      (''/sys/bus/usb/devices/1-1/devnum'', ''2'' @ [CHR 0x0A]),
      (''/sys/bus/usb/devices/1-1/idVendor'', ''046d'' @ [CHR 0x0A]),
      (''/sys/bus/usb/devices/1-1/idProduct'', ''c52b'' @ [CHR 0x0A]),
      (''/sys/bus/usb/devices/1-1/product'', ''USB Receiver'' @ [CHR 0x0A]),
      (''/sys/bus/usb/devices/1-1/speed'', ''12'' @ [CHR 0x0A]),
      (''/sys/bus/usb/devices/1-1/bMaxPower'', ''98mA'' @ [CHR 0x0A])]"

definition example_fs :: sysfs where
  "example_fs =
     \<lparr> path_exists = (\<lambda>p. p = devices_path \<or> p \<in> set (map fst example_files)),
       listdir = (\<lambda>p. if p = devices_path then Inr [''1-0:1.0'', ''1-1''] else Inl OSError),
       read_text = (\<lambda>p. case map_of example_files p of Some t \<Rightarrow> Inr t | None \<Rightarrow> Inl OSError),
       readlink = (\<lambda>p. Inl OSError) \<rparr>"

text \<open>The record the refresh reads for \<open>1-1\<close>.\<close>

definition receiver_info :: "real device_info" where
  "receiver_info =
     \<lparr> vendor_id = ''046d'', product_id = ''c52b'',
       vendor_name = ''unknown'', product_name = ''USB Receiver'',
       serial = ''unknown'', version = Some ''unknown'', class_id = Some ''00'',
       driver = Some ''none'', speed = FloatVal 12, max_power = 98,
       info_bus = Some ''1'', info_device = Some ''2'' \<rparr>"

text \<open>A cache from an earlier refresh: a device 5 on bus 1 that the registry no longer
  lists.\<close>

definition unplugged_info :: "real device_info" where
  "unplugged_info =
     \<lparr> vendor_id = ''0781'', product_id = ''5581'',
       vendor_name = ''SanDisk'', product_name = ''Ultra'',
       serial = ''4C53'', version = Some ''2.10'', class_id = Some ''00'',
       driver = Some ''usb-storage'', speed = FloatVal 480, max_power = 224,
       info_bus = Some ''1'', info_device = Some ''5'' \<rparr>"

definition earlier_cache :: "real device_cache" where
  "earlier_cache = [''1:5'' \<mapsto> unplugged_info]"

text \<open>A registry whose root is missing, and one whose listing raises.\<close>

definition missing_root_fs :: sysfs where
  "missing_root_fs =
     \<lparr> path_exists = (\<lambda>p. False), listdir = (\<lambda>p. Inl OSError),
       read_text = (\<lambda>p. Inl OSError), readlink = (\<lambda>p. Inl OSError) \<rparr>"

definition unreadable_root_fs :: sysfs where
  "unreadable_root_fs =
     \<lparr> path_exists = (\<lambda>p. p = devices_path), listdir = (\<lambda>p. Inl OSError),
       read_text = (\<lambda>p. Inl OSError), readlink = (\<lambda>p. Inl OSError) \<rparr>"

section \<open>Properties of the text primitives\<close>

text \<open>A field of \<open>split(sep)\<close> has no separator, and a token of \<open>split()\<close> is not empty
  and has no whitespace: the strings the parser passes to \<open>int()\<close> have none to strip.\<close>

lemma split_sep_scan_nonempty: "split_sep_scan sep cur s \<noteq> []"
  by (induction s arbitrary: cur) auto

lemma split_sep_scan_fields:
  "f \<in> set (split_sep_scan sep cur s) \<Longrightarrow> sep \<notin> set cur \<Longrightarrow> sep \<notin> set f"
proof (induction s arbitrary: cur)
  case Nil
  then show ?case by simp
next
  case (Cons c cs)
  show ?case
  proof (cases "c = sep")
    case True
    with Cons.prems have "f = cur \<or> f \<in> set (split_sep_scan sep [] cs)"
      by simp
    then show ?thesis
      using Cons.prems(2) Cons.IH [of "[]"] by auto
  next
    case False
    with Cons.prems have "f \<in> set (split_sep_scan sep (cur @ [c]) cs)"
      by simp
    then show ?thesis
      using Cons.prems(2) False Cons.IH [of "cur @ [c]"] by auto
  qed
qed

lemma split_scan_tokens:
  "t \<in> set (split_scan cur s) \<Longrightarrow> list_all (\<lambda>c. \<not> isspace c) cur \<Longrightarrow>
     t \<noteq> [] \<and> list_all (\<lambda>c. \<not> isspace c) t"
proof (induction s arbitrary: cur)
  case Nil
  then show ?case by (auto split: if_splits)
next
  case (Cons c cs)
  show ?case
  proof (cases "isspace c")
    case True
    with Cons.prems have "(cur \<noteq> [] \<and> t = cur) \<or> t \<in> set (split_scan [] cs)"
      by (auto split: if_splits)
    then show ?thesis
      using Cons.prems(2) Cons.IH [of "[]"] by auto
  next
    case False
    with Cons.prems have "t \<in> set (split_scan (cur @ [c]) cs)"
      by simp
    then show ?thesis
      using Cons.prems(2) False Cons.IH [of "cur @ [c]"] by auto
  qed
qed

lemma split_fields_no_sep: "f \<in> set (split_sep sep s) \<Longrightarrow> sep \<notin> set f"
  using split_sep_scan_fields [of f sep "[]" s] by (simp add: split_sep_def)

lemma split_tokens_no_space:
  "t \<in> set (split s) \<Longrightarrow> t \<noteq> [] \<and> list_all (\<lambda>c. \<not> isspace c) t"
  using split_scan_tokens [of t "[]" s] by (simp add: split_def)

section \<open>Properties of the parser\<close>

lemma parse_usbmon_line_Some:
  assumes "parse_usbmon_line maxd line = Some ev"
  shows "6 \<le> length (tokens line)
    \<and> 4 \<le> length (address_fields line)
    \<and> (\<exists>d. py_int maxd (address_fields line ! 2) = Some d \<and> device ev = py_str d)
    \<and> bus ev = address_fields line ! 1
    \<and> data_length ev = extract_data_length maxd (tokens line)"
  using assms
  by (auto simp: parse_usbmon_line_def tokens_def address_fields_def Let_def
      split: if_splits option.splits list.splits)

lemma parse_usbmon_line_None_iff:
  "parse_usbmon_line maxd line = None \<longleftrightarrow>
     (length (tokens line) < 6
      \<or> length (address_fields line) < 4
      \<or> py_int maxd (address_fields line ! 2) = None
      \<or> address_fields line ! 0 = [])"
  by (auto simp: parse_usbmon_line_def tokens_def address_fields_def Let_def
      split: if_splits option.splits list.splits)

lemma scan_payload_amended:
  "(case scan_payload maxd ps of Inl e \<Rightarrow> 0 | Inr None \<Rightarrow> 0 | Inr (Some v) \<Rightarrow> v) =
   (case filter in_length_range
           (List.map_filter (integer_token maxd) (takeWhile (\<lambda>t. \<not> stops_scan maxd t) ps)) of
      v # vs \<Rightarrow> v
    | [] \<Rightarrow> 0)"
proof (induction ps)
  case Nil
  show ?case by (simp add: List.map_filter_simps)
next
  case (Cons p ps)
  show ?case
  proof (cases "isdigit (lstrip_minus p)")
    case False
    then show ?thesis
      using Cons.IH by (simp add: List.map_filter_simps integer_token_def stops_scan_def)
  next
    case True
    show ?thesis
    proof (cases "py_int maxd p")
      case None
      with True show ?thesis
        by (simp add: List.map_filter_simps integer_token_def stops_scan_def)
    next
      case (Some v)
      with True show ?thesis
        using Cons.IH
        by (simp add: List.map_filter_simps integer_token_def stops_scan_def in_length_range_def)
    qed
  qed
qed

lemma extract_data_length_amended:
  "extract_data_length maxd parts = amended_data_length maxd parts"
proof (cases "index_of ''='' parts")
  case None
  then show ?thesis
    using scan_payload_amended [of maxd "drop 5 parts"]
    by (simp add: extract_data_length_def length_assignment_def amended_data_length_def)
next
  case (Some idx)
  then show ?thesis
    by (auto simp: extract_data_length_def length_assignment_def amended_data_length_def
        integer_token_def split: option.splits)
qed

lemma digit_value_digit_char: "d < 10 \<Longrightarrow> digit_value (digit_char d) = d"
proof -
  assume "d < 10"
  then consider "d = 0" | "d = 1" | "d = 2" | "d = 3" | "d = 4" | "d = 5" | "d = 6"
    | "d = 7" | "d = 8" | "d = 9" by atomize_elim arith
  then show ?thesis
    by cases (simp_all add: digit_value_def digit_char_def)
qed

lemma is_decimal_digit_char: "d < 10 \<Longrightarrow> is_decimal (digit_char d)"
  unfolding is_decimal_def digit_char_def
  by (rule nth_mem) simp

lemma digits_of_nat_decimal: "digits_of_nat n \<noteq> [] \<and> list_all is_decimal (digits_of_nat n)"
proof (induction n rule: digits_of_nat.induct)
  case (1 n)
  show ?case
  proof (cases "n < 10")
    case True
    then show ?thesis
      by (subst (1 2) digits_of_nat.simps) (simp add: is_decimal_digit_char)
  next
    case False
    then show ?thesis
      using "1.IH" by (subst (1 2) digits_of_nat.simps) (simp add: is_decimal_digit_char)
  qed
qed

lemma nat_of_digits_snoc: "nat_of_digits (ds @ [c]) = 10 * nat_of_digits ds + digit_value c"
  by (simp add: nat_of_digits_def)

lemma nat_of_digits_of_nat: "nat_of_digits (digits_of_nat n) = n"
proof (induction n rule: digits_of_nat.induct)
  case (1 n)
  show ?case
  proof (cases "n < 10")
    case True
    then show ?thesis
      by (subst digits_of_nat.simps) (simp add: nat_of_digits_def digit_value_digit_char)
  next
    case False
    then show ?thesis
      using "1.IH"
      by (subst digits_of_nat.simps) (simp add: nat_of_digits_snoc digit_value_digit_char)
  qed
qed

lemma split_sep_scan_no_sep: "sep \<notin> set s \<Longrightarrow> split_sep_scan sep cur s = [cur @ s]"
  by (induction s arbitrary: cur) auto

lemma is_decimal_not_sign:
  "is_decimal c \<Longrightarrow> c \<noteq> CHR ''_'' \<and> c \<noteq> CHR ''-'' \<and> c \<noteq> CHR ''+''"
  by (auto simp: is_decimal_def)

lemma py_int_decimal:
  assumes "ds \<noteq> []" "list_all is_decimal ds"
  shows "py_int 0 ds = Some (int (nat_of_digits ds))"
    and "py_int 0 (CHR ''-'' # ds) = Some (- int (nat_of_digits ds))"
proof -
  have no: "\<forall>c \<in> set ds. c \<noteq> CHR ''_'' \<and> c \<noteq> CHR ''-'' \<and> c \<noteq> CHR ''+''"
    using assms(2) is_decimal_not_sign by (auto simp: list_all_iff)
  then have f: "filter (\<lambda>c. c \<noteq> CHR ''_'') ds = ds"
    by (simp add: filter_id_conv)
  have "CHR ''_'' \<notin> set ds"
    using no by auto
  then have g: "digit_groups_ok ds"
    using assms by (simp add: digit_groups_ok_def split_sep_def split_sep_scan_no_sep)
  have h: "hd ds \<noteq> CHR ''-'' \<and> hd ds \<noteq> CHR ''+''"
    using no assms(1) by (cases ds) auto
  show "py_int 0 ds = Some (int (nat_of_digits ds))"
    using f g h assms(1) by (simp add: py_int_def)
  show "py_int 0 (CHR ''-'' # ds) = Some (- int (nat_of_digits ds))"
    using f g by (simp add: py_int_def)
qed

lemma py_int_py_str: "py_int 0 (py_str n) = Some n"
  using py_int_decimal [of "digits_of_nat (nat n)"] py_int_decimal [of "digits_of_nat (nat (- n))"]
    digits_of_nat_decimal [of "nat n"] digits_of_nat_decimal [of "nat (- n)"]
  by (simp add: py_str_def nat_of_digits_of_nat)

lemma integer_text_py_str: "integer_text (py_str n)"
  using digits_of_nat_decimal [of "nat n"] digits_of_nat_decimal [of "nat (- n)"]
  by (simp add: integer_text_def nonneg_integer_text_def py_str_def)

lemma scan_payload_range:
  "scan_payload maxd ps = Inr (Some v) \<Longrightarrow> 0 \<le> v \<and> v < 100000000"
  by (induction ps) (auto split: if_splits option.splits)

lemma parse_usbmon_line_direction:
  "parse_usbmon_line maxd line = Some ev \<Longrightarrow> direction ev = ''out'' \<or> direction ev = ''in''"
  by (auto simp: parse_usbmon_line_def Let_def split: if_splits option.splits list.splits)

lemma process_unparsed:
  "parse_usbmon_line maxd line = None \<Longrightarrow> process_usbmon_data maxd usb_devices m line = Inr m"
  by (simp add: process_usbmon_data_def)

text \<open>A key determines its pair when the bus has no colon, as a field of the address
  token and a \<open>str(int(...))\<close> have none.\<close>

lemma device_key_inject:
  assumes "CHR '':'' \<notin> set b" and "CHR '':'' \<notin> set b'"
    and "device_key b d = device_key b' d'"
  shows "b = b' \<and> d = d'"
proof -
  have "takeWhile (\<lambda>c. c \<noteq> CHR '':'') (device_key b d) = b"
    using assms(1) by (simp add: device_key_def takeWhile_append)
  moreover have "takeWhile (\<lambda>c. c \<noteq> CHR '':'') (device_key b' d') = b'"
    using assms(2) by (simp add: device_key_def takeWhile_append)
  ultimately have "b = b'"
    using assms(3) by simp
  then show ?thesis
    using assms(3) by (simp add: device_key_def)
qed

section \<open>Properties of the refresh\<close>

text \<open>The loop is a sequence of updates: the cache after it is the cache before it,
  overridden by the entries read, a later entry of a key overriding an earlier one.\<close>

lemma foldl_update_one:
  "foldl (update_one maxd to_float fs) usb_devices dirs =
     usb_devices ++ map_of (rev (entries_read maxd to_float fs dirs))"
proof (induction dirs arbitrary: usb_devices)
  case Nil
  show ?case by (simp add: entries_read_def List.map_filter_simps)
next
  case (Cons d ds)
  show ?case
  proof (cases "device_entry maxd to_float fs d")
    case None
    then show ?thesis
      using Cons.IH [of usb_devices]
      by (simp add: update_one_def entries_read_def List.map_filter_simps)
  next
    case (Some e)
    obtain key info where e: "e = (key, info)" by (cases e)
    have step: "update_one maxd to_float fs usb_devices d = usb_devices(key \<mapsto> info)"
      using Some e by (simp add: update_one_def)
    have "foldl (update_one maxd to_float fs) usb_devices (d # ds) =
        foldl (update_one maxd to_float fs) (usb_devices(key \<mapsto> info)) ds"
      by (simp only: foldl_Cons step)
    also have "\<dots> = usb_devices(key \<mapsto> info) ++ map_of (rev (entries_read maxd to_float fs ds))"
      by (rule Cons.IH)
    also have "\<dots> = usb_devices ++ (map_of [(key, info)] ++ map_of (rev (entries_read maxd to_float fs ds)))"
      by (rule ext) (simp add: map_add_def split: option.splits)
    also have "\<dots> = usb_devices ++ map_of (rev (entries_read maxd to_float fs (d # ds)))"
      using Some e by (simp add: entries_read_def List.map_filter_simps)
    finally show ?thesis .
  qed
qed

lemma entries_read_take:
  "set (entries_read maxd to_float fs (take n dirs)) \<subseteq> set (entries_read maxd to_float fs dirs)"
  by (auto simp: entries_read_def List.map_filter_def dest: in_set_takeD)

lemma map_add_map_of_cases:
  "(c ++ map_of (rev es)) key = c key \<or> (\<exists>info. (c ++ map_of (rev es)) key = Some info \<and> (key, info) \<in> set es)"
  by (cases "map_of (rev es) key") (auto simp: map_add_def dest: map_of_SomeD)

section \<open>Evaluation on concrete lines and registries\<close>

lemmas text_eval =
  tokens_def address_fields_def split_def strip_def isspace_def whitespace_chars_def
  split_sep_def py_int_def digit_groups_ok_def is_decimal_def nat_of_digits_def
  digit_value_def py_str_def digits_of_nat.simps digit_char_def isdigit_def
  isdigit_char_def lstrip_minus_def

lemmas parse_eval =
  parse_usbmon_line_def get_transfer_type_def extract_data_length_def
  length_assignment_def

lemmas regex_eval =
  re_match_end_def matches_def device_pattern_def root_hub_pattern_def
  interface_pattern_def one_or_more_def

lemmas sysfs_eval =
  device_entry_def read_sysfs_file_def read_sysfs_str_def path_join_def devices_path_def
  lower_def lower_char_def clean_string_def printable_def parse_speed_def parse_power_def
  search_digits_def get_driver_name_def device_key_def basename_def Let_def

lemma example_entry_receiver: "device_entry 4300 example_float example_fs ''1-1'' = Some (''1:2'', receiver_info)"
  by (simp add: sysfs_eval regex_eval text_eval example_fs_def example_files_def
      example_float_def receiver_info_def)

lemma example_entry_interface: "device_entry 4300 example_float example_fs ''1-0:1.0'' = None"
  by (simp add: sysfs_eval regex_eval text_eval example_fs_def example_files_def
      example_float_def receiver_info_def)

section \<open>Properties of the counters\<close>

text \<open>Up to \<open>2^53\<close> the arithmetic of the counter is exact.\<close>

lemma round_to_double_exact: "n \<le> 2 ^ 53 \<Longrightarrow> round_to_double n = n"
  by (simp add: round_to_double_def)

lemma below_double_bound: "(n::nat) \<le> 2 ^ 53 \<Longrightarrow> n < 2 ^ 1024"
proof -
  assume "n \<le> 2 ^ 53"
  moreover have "(2::nat) ^ 53 < 2 ^ 1024"
    by (rule power_strict_increasing) simp_all
  ultimately show ?thesis by (rule le_less_trans)
qed

lemma int_to_float_exact: "n \<le> 2 ^ 53 \<Longrightarrow> int_to_float n = Some n"
  using below_double_bound [of n] by (simp add: int_to_float_def round_to_double_exact)

lemma float_add_exact: "v + a \<le> 2 ^ 53 \<Longrightarrow> float_add (Finite v) a = Finite (v + a)"
  using below_double_bound [of "v + a"] by (simp add: round_to_double_exact)


lemma labels_inc_exact:
  assumes "0 \<le> amount" and "counter_value c labels = Finite v" and "v + nat amount \<le> 2 ^ 53"
  shows "labels_inc c labels amount = Inr (c(labels \<mapsto> Finite (v + nat amount)))"
proof -
  have "nat amount \<le> 2 ^ 53"
    using assms(3) by simp
  then have "int_to_float (nat amount) = Some (nat amount)"
    by (rule int_to_float_exact)
  then show ?thesis
    using assms by (simp add: labels_inc_def float_add_exact del: float_add.simps)
qed

text \<open>The byte branch on every amount: a length too large for a double leaves the
  method with \<open>OverflowError\<close>, after \<open>labels(...)\<close> has created the child.\<close>

lemma completion_bytes_general:
  assumes "parse_usbmon_line maxd line = Some ev" and "event_type ev = ''C''"
    and "status ev = ''0''" and "0 < data_length ev"
  shows "process_usbmon_data maxd usb_devices m line =
    (if direction ev = ''out'' then
       (case int_to_float (nat (data_length ev)) of
          None \<Rightarrow>
            Inl (OverflowError,
              m\<lparr>usb_data_sent_bytes :=
                  (usb_data_sent_bytes m)(byte_labels usb_devices ev \<mapsto>
                     counter_value (usb_data_sent_bytes m) (byte_labels usb_devices ev))\<rparr>)
        | Some a \<Rightarrow>
            Inr (m\<lparr>usb_data_sent_bytes :=
                  (usb_data_sent_bytes m)(byte_labels usb_devices ev \<mapsto>
                     float_add (counter_value (usb_data_sent_bytes m)
                       (byte_labels usb_devices ev)) a)\<rparr>))
     else
       (case int_to_float (nat (data_length ev)) of
          None \<Rightarrow>
            Inl (OverflowError,
              m\<lparr>usb_data_received_bytes :=
                  (usb_data_received_bytes m)(byte_labels usb_devices ev \<mapsto>
                     counter_value (usb_data_received_bytes m) (byte_labels usb_devices ev))\<rparr>)
        | Some a \<Rightarrow>
            Inr (m\<lparr>usb_data_received_bytes :=
                  (usb_data_received_bytes m)(byte_labels usb_devices ev \<mapsto>
                     float_add (counter_value (usb_data_received_bytes m)
                       (byte_labels usb_devices ev)) a)\<rparr>)))"
  using assms
  by (simp add: process_usbmon_data_def labels_inc_def byte_labels_def Let_def
      split: option.splits del: float_add.simps)

lemma round_example: "round_to_double 9007199254740993 = 9007199254740992"
  by (simp add: round_to_double_def bit_length.simps Let_def)

section \<open>The claims\<close>

subsection \<open>C1: a successful completion with data\<close>

text \<open>
  The child of a counter is a double. On the line below the length before \<open>=\<close> is
  \<open>2^53 + 1\<close>, which no double represents: the child, created at 0, holds \<open>2^53\<close>
  after the call, one less than \<open>data_length\<close>.
\<close>

theorem large_length_is_rounded:
  "parse_usbmon_line 4300 ''abc 123 C Ci:1:002:1 0 9007199254740993 = 00'' =
     Some \<lparr> event_type = ''C'', bus = ''1'', device = ''2'', endpoint = ''1'',
            direction = ''in'', transfer_type = ''control'', status = ''0'',
            data_length = 9007199254740993 \<rparr>
   \<and> process_usbmon_data 4300 [''1:2'' \<mapsto> receiver_info] no_metrics
        ''abc 123 C Ci:1:002:1 0 9007199254740993 = 00'' =
     Inr \<lparr> usb_data_sent_bytes = Map.empty,
           usb_data_received_bytes =
             [[''1'', ''2'', ''1'', ''control'', ''unknown'', ''USB Receiver'', ''unknown'']
                \<mapsto> Finite 9007199254740992],
           usb_transfer_errors_sent = Map.empty,
           usb_transfer_errors_received = Map.empty \<rparr>"
proof -
  have p: "parse_usbmon_line 4300 ''abc 123 C Ci:1:002:1 0 9007199254740993 = 00'' =
     Some \<lparr> event_type = ''C'', bus = ''1'', device = ''2'', endpoint = ''1'',
            direction = ''in'', transfer_type = ''control'', status = ''0'',
            data_length = 9007199254740993 \<rparr>"
    by (simp add: parse_eval text_eval)
  have c: "int_to_float 9007199254740993 = Some 9007199254740992"
    by (simp add: int_to_float_def round_example)
  have a: "float_add (Finite 0) 9007199254740992 = Finite 9007199254740992"
    using float_add_exact [of 0 9007199254740992] by (simp del: float_add.simps)
  show ?thesis
    by (simp add: p process_usbmon_data_def labels_inc_def c a get_device_info_def
        device_key_def receiver_info_def no_metrics_def counter_value_def
        del: float_add.simps)
qed

text \<open>
  C1, amended. For a line that parses to an event with \<open>event_type\<close> \<open>C\<close>, \<open>status\<close> \<open>0\<close>
  and a positive \<open>data_length\<close>, when the value \<open>v\<close> of the child plus \<open>data_length\<close> is at
  most \<open>2^53\<close>: \<open>process_usbmon_data\<close> raises nothing and returns the metrics with one
  child of one byte counter changed, the sent-bytes counter when the direction is \<open>out\<close>,
  the received-bytes counter when it is \<open>in\<close> (the direction is one of the two), at the
  labels bus, device, endpoint, transfer type and the vendor name, product name and serial
  of the metadata lookup, raised by exactly \<open>data_length\<close>. Every other child, the other
  byte counter and both error counters are as before.
\<close>

theorem successful_completion_counts_bytes:
  assumes "parse_usbmon_line maxd line = Some ev" and "event_type ev = ''C''"
    and "status ev = ''0''" and "0 < data_length ev"
    and "counter_value
           (if direction ev = ''out'' then usb_data_sent_bytes m else usb_data_received_bytes m)
           (byte_labels usb_devices ev) = Finite v"
    and "v + nat (data_length ev) \<le> 2 ^ 53"
  shows "(direction ev = ''out'' \<or> direction ev = ''in'')
    \<and> process_usbmon_data maxd usb_devices m line =
        Inr (if direction ev = ''out''
             then m\<lparr>usb_data_sent_bytes :=
                    (usb_data_sent_bytes m)(byte_labels usb_devices ev \<mapsto>
                       Finite (v + nat (data_length ev)))\<rparr>
             else m\<lparr>usb_data_received_bytes :=
                    (usb_data_received_bytes m)(byte_labels usb_devices ev \<mapsto>
                       Finite (v + nat (data_length ev)))\<rparr>)"
proof (cases "direction ev = ''out''")
  case True
  then have "labels_inc (usb_data_sent_bytes m) (byte_labels usb_devices ev) (data_length ev) =
      Inr ((usb_data_sent_bytes m)(byte_labels usb_devices ev \<mapsto> Finite (v + nat (data_length ev))))"
    using assms(4-6) by (intro labels_inc_exact) simp_all
  then show ?thesis
    using assms(1-4) True
    by (simp add: process_usbmon_data_def byte_labels_def Let_def)
next
  case False
  then have "labels_inc (usb_data_received_bytes m) (byte_labels usb_devices ev) (data_length ev) =
      Inr ((usb_data_received_bytes m)(byte_labels usb_devices ev \<mapsto> Finite (v + nat (data_length ev))))"
    using assms(4-6) by (intro labels_inc_exact) simp_all
  then show ?thesis
    using assms(1-4) False parse_usbmon_line_direction [OF assms(1)]
    by (simp add: process_usbmon_data_def byte_labels_def Let_def)
qed

theorem successful_completion_counts_bytes_witness:
  "parse_usbmon_line 4300 ''abc 123 C Ci:1:002:1 0 32 = 01020304'' =
     Some \<lparr> event_type = ''C'', bus = ''1'', device = ''2'', endpoint = ''1'',
            direction = ''in'', transfer_type = ''control'', status = ''0'',
            data_length = 32 \<rparr>
   \<and> process_usbmon_data 4300 [''1:2'' \<mapsto> receiver_info] no_metrics
        ''abc 123 C Ci:1:002:1 0 32 = 01020304'' =
     Inr \<lparr> usb_data_sent_bytes = Map.empty,
           usb_data_received_bytes =
             [[''1'', ''2'', ''1'', ''control'', ''unknown'', ''USB Receiver'', ''unknown'']
                \<mapsto> Finite 32],
           usb_transfer_errors_sent = Map.empty,
           usb_transfer_errors_received = Map.empty \<rparr>"
proof -
  have p: "parse_usbmon_line 4300 ''abc 123 C Ci:1:002:1 0 32 = 01020304'' =
     Some \<lparr> event_type = ''C'', bus = ''1'', device = ''2'', endpoint = ''1'',
            direction = ''in'', transfer_type = ''control'', status = ''0'',
            data_length = 32 \<rparr>"
    by (simp add: parse_eval text_eval)
  show ?thesis
    using p
      successful_completion_counts_bytes [OF p, of no_metrics "[''1:2'' \<mapsto> receiver_info]" 0]
    by (simp add: byte_labels_def get_device_info_def device_key_def receiver_info_def
        no_metrics_def counter_value_def)
qed

subsection \<open>C2: a failed completion\<close>



subsection \<open>C3: the extraction of the length\<close>

text \<open>
  As the specification words it, the scan without a \<open>=\<close> token uses the first
  integer-valued payload token in the range. On the line below the payload is \<open>--5 32\<close>:
  \<open>--5\<close> passes the digit test, \<open>int('--5')\<close> raises \<open>ValueError\<close>, the \<open>except\<close> ends the
  scan, and the length stays 0, where the wording gives 32.
\<close>

theorem scan_stops_at_rejected_token:
  "parse_usbmon_line 4300 ''abc 123 C Bo:1:005:2 0 --5 32'' =
     Some \<lparr> event_type = ''C'', bus = ''1'', device = ''5'', endpoint = ''2'',
            direction = ''out'', transfer_type = ''bulk'', status = ''0'',
            data_length = 0 \<rparr>
   \<and> spec_data_length 4300 (tokens ''abc 123 C Bo:1:005:2 0 --5 32'') = 32"
  by (simp add: parse_eval text_eval spec_data_length_def integer_token_def
      in_length_range_def List.map_filter_simps)

text \<open>
  C3, amended. For every line the parser accepts, \<open>data_length\<close> is: with a \<open>=\<close> token,
  the value of the token before the first one when that token is numeric, else 0; without
  one, the first integer-valued token in the range \<open>[0, 100000000)\<close> among the payload
  tokens (index 5 onward) that stand before the first token that passes the digit test and
  that \<open>int()\<close> rejects, else 0. The payload never makes the parse fail: every line of at
  least six tokens with the same address token is accepted too.
\<close>

theorem data_length_extraction:
  assumes "parse_usbmon_line maxd line = Some ev"
  shows "data_length ev = amended_data_length maxd (tokens line)
    \<and> (\<forall>line'. 6 \<le> length (tokens line') \<and> tokens line' ! 3 = tokens line ! 3
          \<longrightarrow> parse_usbmon_line maxd line' \<noteq> None)"
proof -
  have "data_length ev = amended_data_length maxd (tokens line)"
    using parse_usbmon_line_Some [OF assms] by (simp add: extract_data_length_amended)
  moreover have "parse_usbmon_line maxd line' \<noteq> None"
    if "6 \<le> length (tokens line') \<and> tokens line' ! 3 = tokens line ! 3" for line'
  proof -
    have "parse_usbmon_line maxd line \<noteq> None"
      using assms by simp
    then show ?thesis
      using that unfolding parse_usbmon_line_None_iff address_fields_def by simp
  qed
  ultimately show ?thesis by blast
qed

theorem data_length_extraction_witness:
  "parse_usbmon_line 4300 ''abc 123 C Bo:1:005:2 0 --5 32'' =
     Some \<lparr> event_type = ''C'', bus = ''1'', device = ''5'', endpoint = ''2'',
            direction = ''out'', transfer_type = ''bulk'', status = ''0'',
            data_length = 0 \<rparr>
   \<and> amended_data_length 4300 (tokens ''abc 123 C Bo:1:005:2 0 --5 32'') = 0
   \<and> parse_usbmon_line 4300 ''abc 123 C Ci:1:002:1 0 32 >'' =
     Some \<lparr> event_type = ''C'', bus = ''1'', device = ''2'', endpoint = ''1'',
            direction = ''in'', transfer_type = ''control'', status = ''0'',
            data_length = 32 \<rparr>
   \<and> amended_data_length 4300 (tokens ''abc 123 C Ci:1:002:1 0 32 >'') = 32
   \<and> parse_usbmon_line 4300 ''abc 123 C Ci:1:002:1 0 zz'' \<noteq> None"
proof -
  have p: "parse_usbmon_line 4300 ''abc 123 C Bo:1:005:2 0 --5 32'' =
     Some \<lparr> event_type = ''C'', bus = ''1'', device = ''5'', endpoint = ''2'',
            direction = ''out'', transfer_type = ''bulk'', status = ''0'',
            data_length = 0 \<rparr>"
    by (simp add: parse_eval text_eval)
  have q: "parse_usbmon_line 4300 ''abc 123 C Ci:1:002:1 0 32 >'' =
     Some \<lparr> event_type = ''C'', bus = ''1'', device = ''2'', endpoint = ''1'',
            direction = ''in'', transfer_type = ''control'', status = ''0'',
            data_length = 32 \<rparr>"
    by (simp add: parse_eval text_eval)
  have r: "6 \<le> length (tokens ''abc 123 C Ci:1:002:1 0 zz'')
      \<and> tokens ''abc 123 C Ci:1:002:1 0 zz'' ! 3 = tokens ''abc 123 C Ci:1:002:1 0 32 >'' ! 3"
    by (simp add: text_eval)
  have "parse_usbmon_line 4300 ''abc 123 C Ci:1:002:1 0 zz'' \<noteq> None"
    using r data_length_extraction [OF q] by blast
  then show ?thesis
    using p q data_length_extraction [OF p] data_length_extraction [OF q] by simp
qed

subsection \<open>C4: the cache after a refresh\<close>

text \<open>
  The refresh never removes a key. In the example the registry lists one device, bus 1
  device 2; the cache held a record of bus 1 device 5 before, and holds it after, where a
  cache rebuilt from the registry (\<open>map_of\<close> of the entries read) has no such key.
\<close>

theorem stale_record_survives_refresh:
  "path_exists example_fs devices_path
   \<and> listdir example_fs devices_path = Inr [''1-0:1.0'', ''1-1'']
   \<and> entries_read 4300 example_float example_fs [''1-0:1.0'', ''1-1''] = [(''1:2'', receiver_info)]
   \<and> map_of [(''1:2'', receiver_info)] ''1:5'' = None
   \<and> update_device_info 4300 example_float example_fs earlier_cache ''1:5'' = Some unplugged_info"
proof -
  have a: "path_exists example_fs devices_path"
    by (simp add: example_fs_def)
  have b: "listdir example_fs devices_path = Inr [''1-0:1.0'', ''1-1'']"
    by (simp add: example_fs_def)
  have e: "entries_read 4300 example_float example_fs [''1-0:1.0'', ''1-1''] = [(''1:2'', receiver_info)]"
    by (simp add: entries_read_def List.map_filter_simps example_entry_receiver example_entry_interface)
  have u: "update_device_info 4300 example_float example_fs earlier_cache =
      earlier_cache(''1:2'' \<mapsto> receiver_info)"
    by (simp add: update_device_info_def a b update_one_def example_entry_receiver example_entry_interface)
  have "(earlier_cache(''1:2'' \<mapsto> receiver_info)) ''1:5'' = Some unplugged_info"
    by (simp add: earlier_cache_def)
  then show ?thesis
    by (simp add: a b e u)
qed

text \<open>
  C4, amended. After a refresh that enumerated the registry root, the cache is the cache
  before it overridden by the entries read in that refresh: every key read maps to the
  record read for it (the last one, if it was read more than once), and every other key
  keeps its earlier record, also when the registry no longer lists its device. The cache
  is updated one device at a time, so under every cache a reader can find during the
  refresh a key has its earlier value or a record read in this refresh.
\<close>

theorem refresh_updates_in_place:
  assumes "path_exists fs devices_path" and "listdir fs devices_path = Inr dirs"
  shows "update_device_info maxd to_float fs usb_devices =
      usb_devices ++ map_of (rev (entries_read maxd to_float fs dirs))
    \<and> (\<forall>c \<in> set (visible_caches maxd to_float fs usb_devices). \<forall>key.
          c key = usb_devices key
          \<or> (\<exists>info. c key = Some info \<and> (key, info) \<in> set (entries_read maxd to_float fs dirs)))"
proof -
  have "update_device_info maxd to_float fs usb_devices =
      usb_devices ++ map_of (rev (entries_read maxd to_float fs dirs))"
    using assms by (simp add: update_device_info_def foldl_update_one)
  moreover have "c key = usb_devices key
      \<or> (\<exists>info. c key = Some info \<and> (key, info) \<in> set (entries_read maxd to_float fs dirs))"
    if "c \<in> set (visible_caches maxd to_float fs usb_devices)" for c key
  proof -
    from that assms
    have "c \<in> (\<lambda>n. foldl (update_one maxd to_float fs) usb_devices (take n dirs))
            ` set [0 ..< Suc (length dirs)]"
      by (simp add: visible_caches_def del: upt_Suc)
    then obtain n where
      c: "c = usb_devices ++ map_of (rev (entries_read maxd to_float fs (take n dirs)))"
      unfolding foldl_update_one by blast
    have "c key = usb_devices key
        \<or> (\<exists>info. c key = Some info
              \<and> (key, info) \<in> set (entries_read maxd to_float fs (take n dirs)))"
      unfolding c by (rule map_add_map_of_cases)
    then show ?thesis
      using entries_read_take [of maxd to_float fs n dirs] by auto
  qed
  ultimately show ?thesis by blast
qed

theorem refresh_updates_in_place_witness:
  "path_exists example_fs devices_path
   \<and> listdir example_fs devices_path = Inr [''1-0:1.0'', ''1-1'']
   \<and> update_device_info 4300 example_float example_fs earlier_cache =
       [''1:5'' \<mapsto> unplugged_info, ''1:2'' \<mapsto> receiver_info]"
proof -
  have a: "path_exists example_fs devices_path"
    by (simp add: example_fs_def)
  have b: "listdir example_fs devices_path = Inr [''1-0:1.0'', ''1-1'']"
    by (simp add: example_fs_def)
  have e: "entries_read 4300 example_float example_fs [''1-0:1.0'', ''1-1''] = [(''1:2'', receiver_info)]"
    by (simp add: entries_read_def List.map_filter_simps example_entry_receiver example_entry_interface)
  show ?thesis
    using a b refresh_updates_in_place [OF a b, of 4300 example_float earlier_cache]
    by (simp add: e earlier_cache_def)
qed

subsection \<open>C5: a refresh that cannot reach the registry root\<close>

text \<open>
  C5. When the registry root does not exist, or listing it raises, \<open>update_device_info\<close>
  returns the cache as it was, and no other cache is visible during the call.
\<close>

theorem refresh_without_root_keeps_cache:
  assumes "\<not> path_exists fs devices_path \<or> listdir fs devices_path = Inl e"
  shows "update_device_info maxd to_float fs usb_devices = usb_devices
    \<and> visible_caches maxd to_float fs usb_devices = [usb_devices]"
  using assms by (auto simp: update_device_info_def visible_caches_def)

theorem refresh_without_root_keeps_cache_witness:
  "\<not> path_exists missing_root_fs devices_path
   \<and> update_device_info 4300 example_float missing_root_fs earlier_cache = earlier_cache
   \<and> path_exists unreadable_root_fs devices_path
   \<and> listdir unreadable_root_fs devices_path = Inl OSError
   \<and> update_device_info 4300 example_float unreadable_root_fs earlier_cache = earlier_cache"
proof -
  have a: "\<not> path_exists missing_root_fs devices_path"
    by (simp add: missing_root_fs_def)
  have b: "listdir unreadable_root_fs devices_path = Inl OSError"
    by (simp add: unreadable_root_fs_def)
  have c: "path_exists unreadable_root_fs devices_path"
    by (simp add: unreadable_root_fs_def)
  show ?thesis
    using a b c
      refresh_without_root_keeps_cache [of missing_root_fs OSError 4300 example_float earlier_cache]
      refresh_without_root_keeps_cache [of unreadable_root_fs OSError 4300 example_float earlier_cache]
    by simp
qed

subsection \<open>C6: malformed lines\<close>

text \<open>
  C6. A line with fewer than 6 whitespace tokens, or whose fourth token has fewer than 4
  colon-separated fields, yields \<open>None\<close>: no event at all.
\<close>

theorem malformed_line_rejected:
  assumes "length (tokens line) < 6 \<or> length (address_fields line) < 4"
  shows "parse_usbmon_line maxd line = None"
  using assms by (auto simp: parse_usbmon_line_None_iff)

theorem malformed_line_rejected_witness:
  "length (tokens ''abc 123 C Ci:1:002:1 0'') < 6
   \<and> parse_usbmon_line 4300 ''abc 123 C Ci:1:002:1 0'' = None
   \<and> length (address_fields ''abc 123 C Ci:1:002 0 32'') < 4
   \<and> parse_usbmon_line 4300 ''abc 123 C Ci:1:002 0 32'' = None"
proof -
  have a: "length (tokens ''abc 123 C Ci:1:002:1 0'') < 6"
    by (simp add: text_eval)
  have b: "length (address_fields ''abc 123 C Ci:1:002 0 32'') < 4"
    by (simp add: text_eval)
  show ?thesis
    using a b malformed_line_rejected [of "''abc 123 C Ci:1:002:1 0''" 4300]
      malformed_line_rejected [of "''abc 123 C Ci:1:002 0 32''" 4300]
    by blast
qed

subsection \<open>C7: the sign of the length\<close>

text \<open>
  C7. The scan keeps a value only in \<open>[0, 100000000)\<close> (\<open>scan_payload_range\<close>); the
  branch of the \<open>=\<close> token has no such check. On the line below, \<open>-5\<close> stands before \<open>=\<close>
  and the event's \<open>data_length\<close> is \<open>-5\<close>.
\<close>

theorem negative_length_before_marker:
  "parse_usbmon_line 4300 ''abc 123 C Ci:1:002:1 0 -5 = 00'' =
     Some \<lparr> event_type = ''C'', bus = ''1'', device = ''2'', endpoint = ''1'',
            direction = ''in'', transfer_type = ''control'', status = ''0'',
            data_length = - 5 \<rparr>"
  by (simp add: parse_eval text_eval)

subsection \<open>C8: the bus and device of an event\<close>

text \<open>
  The parser copies the bus field and converts the device field with \<open>str(int(...))\<close>,
  which keeps a sign. On the line below the address is \<open>Ci:xx:-5:1\<close>: the event has bus
  \<open>xx\<close> and device \<open>-5\<close>, neither the decimal representation of a non-negative integer.
\<close>

theorem bus_device_not_validated:
  "parse_usbmon_line 4300 ''abc 123 C Ci:xx:-5:1 0 32'' =
     Some \<lparr> event_type = ''C'', bus = ''xx'', device = ''-5'', endpoint = ''1'',
            direction = ''in'', transfer_type = ''control'', status = ''0'',
            data_length = 32 \<rparr>
   \<and> \<not> nonneg_integer_text ''xx'' \<and> \<not> nonneg_integer_text ''-5''"
  by (simp add: parse_eval text_eval nonneg_integer_text_def)

text \<open>
  C8, amended. For every line the parser accepts, the event's device is the decimal
  representation of an integer, negative or not: the \<open>str()\<close> of the integer \<open>d\<close> that
  \<open>int()\<close> reads from the third address field, which \<open>int()\<close> reads back as \<open>d\<close>; so a
  line whose third address field is no integer literal yields no event. The event's bus
  is the second address field as it stands.
\<close>

theorem device_is_integer_text:
  assumes "parse_usbmon_line maxd line = Some ev"
  shows "integer_text (device ev)
    \<and> (\<exists>d. py_int maxd (address_fields line ! 2) = Some d
          \<and> device ev = py_str d \<and> py_int 0 (device ev) = Some d)
    \<and> bus ev = address_fields line ! 1"
proof -
  from parse_usbmon_line_Some [OF assms]
  obtain d where d: "py_int maxd (address_fields line ! 2) = Some d" "device ev = py_str d"
    and b: "bus ev = address_fields line ! 1"
    by blast
  show ?thesis
    using d b by (simp add: integer_text_py_str py_int_py_str)
qed

theorem device_is_integer_text_witness:
  "parse_usbmon_line 4300 ''abc 123 C Ci:xx:-5:1 0 32'' =
     Some \<lparr> event_type = ''C'', bus = ''xx'', device = ''-5'', endpoint = ''1'',
            direction = ''in'', transfer_type = ''control'', status = ''0'',
            data_length = 32 \<rparr>
   \<and> integer_text ''-5''
   \<and> address_fields ''abc 123 C Ci:xx:-5:1 0 32'' ! 1 = ''xx''"
proof -
  have p: "parse_usbmon_line 4300 ''abc 123 C Ci:xx:-5:1 0 32'' =
     Some \<lparr> event_type = ''C'', bus = ''xx'', device = ''-5'', endpoint = ''1'',
            direction = ''in'', transfer_type = ''control'', status = ''0'',
            data_length = 32 \<rparr>"
    by (simp add: parse_eval text_eval)
  show ?thesis
    using p device_is_integer_text [OF p] by simp
qed

subsection \<open>C9: the metadata lookup\<close>

text \<open>
  C9. \<open>get_device_info\<close> returns a record for every bus and device: the cached record
  when the cache has the key \<open>bus:device\<close>, and else the placeholder, whose vendor id,
  product id, vendor name, product name and serial are \<open>unknown\<close> and whose speed and
  power are 0. It has no failing branch.
\<close>

theorem lookup_is_total:
  "((usb_devices :: 'f device_cache) (device_key b d) = None
      \<longrightarrow> get_device_info usb_devices b d = unknown_device)
   \<and> (\<forall>info. usb_devices (device_key b d) = Some info
      \<longrightarrow> get_device_info usb_devices b d = info)
   \<and> vendor_id (unknown_device :: 'f device_info) = ''unknown''
   \<and> product_id (unknown_device :: 'f device_info) = ''unknown''
   \<and> vendor_name (unknown_device :: 'f device_info) = ''unknown''
   \<and> product_name (unknown_device :: 'f device_info) = ''unknown''
   \<and> serial (unknown_device :: 'f device_info) = ''unknown''
   \<and> speed (unknown_device :: 'f device_info) = IntVal 0
   \<and> max_power (unknown_device :: 'f device_info) = 0"
  by (simp add: get_device_info_def unknown_device_def)

theorem lookup_is_total_witness:
  "earlier_cache (device_key ''1'' ''5'') = Some unplugged_info
   \<and> get_device_info earlier_cache ''1'' ''5'' = unplugged_info
   \<and> earlier_cache (device_key ''7'' ''9'') = None
   \<and> get_device_info earlier_cache ''7'' ''9'' = unknown_device"
proof -
  have a: "earlier_cache (device_key ''1'' ''5'') = Some unplugged_info"
    by (simp add: earlier_cache_def device_key_def)
  have b: "earlier_cache (device_key ''7'' ''9'') = None"
    by (simp add: earlier_cache_def device_key_def)
  show ?thesis
    using a b lookup_is_total [of earlier_cache "''1''" "''5''"]
      lookup_is_total [of earlier_cache "''7''" "''9''"]
    by simp
qed

subsection \<open>C10: a device field that is no integer\<close>

text \<open>
  C10. A line of at least 6 tokens whose address has at least 4 fields is still dropped
  when \<open>int()\<close> rejects the third field: the parser yields \<open>None\<close>, and
  \<open>process_usbmon_data\<close> returns the metrics unchanged and raises nothing.
\<close>

theorem non_integer_device_dropped:
  assumes "6 \<le> length (tokens line)" and "4 \<le> length (address_fields line)"
    and "py_int maxd (address_fields line ! 2) = None"
  shows "parse_usbmon_line maxd line = None
    \<and> process_usbmon_data maxd usb_devices m line = Inr m"
  using assms by (simp add: parse_usbmon_line_None_iff process_unparsed)

theorem non_integer_device_dropped_witness:
  "6 \<le> length (tokens ''abc 123 C Ci:1:x02:1 0 32'')
   \<and> 4 \<le> length (address_fields ''abc 123 C Ci:1:x02:1 0 32'')
   \<and> py_int 4300 (address_fields ''abc 123 C Ci:1:x02:1 0 32'' ! 2) = None
   \<and> parse_usbmon_line 4300 ''abc 123 C Ci:1:x02:1 0 32'' = None
   \<and> process_usbmon_data 4300 (Map.empty :: real device_cache) no_metrics
        ''abc 123 C Ci:1:x02:1 0 32'' = Inr no_metrics"
proof -
  have a: "6 \<le> length (tokens ''abc 123 C Ci:1:x02:1 0 32'')"
    by (simp add: text_eval)
  have b: "4 \<le> length (address_fields ''abc 123 C Ci:1:x02:1 0 32'')"
    by (simp add: text_eval)
  have c: "py_int 4300 (address_fields ''abc 123 C Ci:1:x02:1 0 32'' ! 2) = None"
    by (simp add: text_eval)
  show ?thesis
    using a b c
      non_integer_device_dropped [OF a b c, where usb_devices = "Map.empty :: real device_cache"
        and m = no_metrics]
    by simp
qed

end
